theory Spec2Isabelle
  imports Complex_Main "HOL-Library.Multiset"
begin

section \<open>Floating-point values\<close>

text \<open>
  The program computes with pandas/numpy \<open>float64\<close> values. A value is modelled as a
  finite number, \<open>NaN\<close>, or one of the two infinities. Finite values are real numbers
  and arithmetic on them is exact: rounding, overflow to infinity and the sign of zero
  are not modelled (\<open>x / 0\<close> takes its sign from \<open>x\<close> alone). The special values
  follow IEEE 754, which numpy applies without raising: \<open>0 / 0\<close>, \<open>inf - inf\<close> and
  \<open>0 * inf\<close> are \<open>NaN\<close>, and \<open>NaN\<close> propagates through every operation.
\<close>

datatype fl = Fin real | NaN | PInf | NInf

definition inf_of :: "real \<Rightarrow> fl" where
  "inf_of s = (if 0 < s then PInf else if s < 0 then NInf else NaN)"

fun fl_neg :: "fl \<Rightarrow> fl" where
  "fl_neg (Fin a) = Fin (- a)"
| "fl_neg NaN = NaN"
| "fl_neg PInf = NInf"
| "fl_neg NInf = PInf"

fun fl_add :: "fl \<Rightarrow> fl \<Rightarrow> fl" where
  "fl_add (Fin a) (Fin b) = Fin (a + b)"
| "fl_add NaN _ = NaN"
| "fl_add _ NaN = NaN"
| "fl_add PInf NInf = NaN"
| "fl_add NInf PInf = NaN"
| "fl_add PInf _ = PInf"
| "fl_add _ PInf = PInf"
| "fl_add NInf _ = NInf"
| "fl_add _ NInf = NInf"

definition fl_sub :: "fl \<Rightarrow> fl \<Rightarrow> fl" where
  "fl_sub a b = fl_add a (fl_neg b)"

fun fl_mul :: "fl \<Rightarrow> fl \<Rightarrow> fl" where
  "fl_mul (Fin a) (Fin b) = Fin (a * b)"
| "fl_mul NaN _ = NaN"
| "fl_mul _ NaN = NaN"
| "fl_mul PInf (Fin b) = inf_of b"
| "fl_mul (Fin a) PInf = inf_of a"
| "fl_mul NInf (Fin b) = inf_of (- b)"
| "fl_mul (Fin a) NInf = inf_of (- a)"
| "fl_mul PInf PInf = PInf"
| "fl_mul NInf NInf = PInf"
| "fl_mul PInf NInf = NInf"
| "fl_mul NInf PInf = NInf"

fun fl_div :: "fl \<Rightarrow> fl \<Rightarrow> fl" where
  "fl_div (Fin a) (Fin b) = (if b = 0 then inf_of a else Fin (a / b))"
| "fl_div NaN _ = NaN"
| "fl_div _ NaN = NaN"
| "fl_div (Fin a) PInf = Fin 0"
| "fl_div (Fin a) NInf = Fin 0"
| "fl_div PInf (Fin b) = (if 0 \<le> b then PInf else NInf)"
| "fl_div NInf (Fin b) = (if 0 \<le> b then NInf else PInf)"
| "fl_div PInf PInf = NaN"
| "fl_div PInf NInf = NaN"
| "fl_div NInf PInf = NaN"
| "fl_div NInf NInf = NaN"

fun fl_sqrt :: "fl \<Rightarrow> fl" where
  "fl_sqrt (Fin a) = (if a < 0 then NaN else Fin (sqrt a))"
| "fl_sqrt NaN = NaN"
| "fl_sqrt PInf = PInf"
| "fl_sqrt NInf = NaN"

fun fl_abs :: "fl \<Rightarrow> fl" where
  "fl_abs (Fin a) = Fin \<bar>a\<bar>"
| "fl_abs NaN = NaN"
| "fl_abs PInf = PInf"
| "fl_abs NInf = PInf"

text \<open>The comparison \<open>a < b\<close>: false as soon as one side is \<open>NaN\<close>.\<close>

fun fl_less :: "fl \<Rightarrow> fl \<Rightarrow> bool" where
  "fl_less (Fin a) (Fin b) = (a < b)"
| "fl_less NaN _ = False"
| "fl_less _ NaN = False"
| "fl_less NInf NInf = False"
| "fl_less NInf _ = True"
| "fl_less _ NInf = False"
| "fl_less PInf _ = False"
| "fl_less _ PInf = True"

definition fl_max :: "fl \<Rightarrow> fl \<Rightarrow> fl" where
  "fl_max a b = (if fl_less a b then b else a)"

definition fl_min2 :: "fl \<Rightarrow> fl \<Rightarrow> fl" where
  "fl_min2 a b = (if fl_less b a then b else a)"

section \<open>Series and frames\<close>

text \<open>
  A pandas \<open>Series\<close> is its index paired with its values, in order. A \<open>DataFrame\<close>
  is its column labels and its rows, each row the index label with one value per column
  (a frame is rectangular).
\<close>

type_synonym 'd series = "('d \<times> fl) list"

record 'd frame =
  columns :: "string list"
  rows :: "('d \<times> fl list) list"

text \<open>\<open>DataFrame.empty\<close>: true when either axis has length 0.\<close>

definition frame_empty :: "'d frame \<Rightarrow> bool" where
  "frame_empty data = (rows data = [] \<or> columns data = [])"

datatype error =
    IndexError
  | ValueError
  | SelectAtLeastOne
  | AllocationsCountMismatch
  | AllocationsSumNot100
  | FailedToFetch

text \<open>\<open>dropna\<close> removes the entries whose value is \<open>NaN\<close> (infinities stay).\<close>

definition dropna :: "fl list \<Rightarrow> fl list" where
  "dropna xs = filter (\<lambda>x. x \<noteq> NaN) xs"

text \<open>
  The reductions of pandas skip \<open>NaN\<close> by default (\<open>skipna=True\<close>): \<open>sum\<close> of nothing
  is 0.
\<close>

definition nansum :: "fl list \<Rightarrow> fl" where
  "nansum xs = foldr fl_add (dropna xs) (Fin 0)"

section \<open>simulate\_portfolio\<close>

text \<open>
  \<^verbatim>\<open>
  def simulate_portfolio(data, allocations, initial_investment):
      normalized = data / data.iloc[0]
      weighted = normalized * allocations
      portfolio = weighted.sum(axis=1) * initial_investment
      return portfolio
  \<close>
  \<open>data.iloc[0]\<close> raises \<open>IndexError\<close> on a frame without rows. Dividing the frame by
  its first row divides column by column. \<open>allocations\<close> is a plain list: pandas pairs
  it with the columns by position and raises \<open>ValueError\<close> when its length is not the
  number of columns.
\<close>

definition simulate_portfolio :: "'d frame \<Rightarrow> fl list \<Rightarrow> fl \<Rightarrow> error + 'd series" where
  "simulate_portfolio data allocations initial_investment =
     (case rows data of
        [] \<Rightarrow> Inl IndexError
      | (d0, first) # _ \<Rightarrow>
          let normalized = map (\<lambda>(d, r). (d, map2 fl_div r first)) (rows data) in
          if length allocations \<noteq> length (columns data) then Inl ValueError
          else
            let weighted = map (\<lambda>(d, r). (d, map2 fl_mul r allocations)) normalized;
                portfolio = map (\<lambda>(d, r). (d, fl_mul (nansum r) initial_investment)) weighted
            in Inr portfolio)"

section \<open>calculate\_metrics\<close>

text \<open>
  \<open>Series.pct_change()\<close> with its default arguments first fills each \<open>NaN\<close> with the
  last value before it (\<open>fill_method='pad'\<close>), then divides each value by the one
  before and subtracts 1. The first entry has no predecessor and is \<open>NaN\<close>. (The
  filling is the default of pandas before version 3, which no longer fills; on a series
  without \<open>NaN\<close> the two agree.)
\<close>

fun ffill_from :: "fl \<Rightarrow> fl list \<Rightarrow> fl list" where
  "ffill_from prev [] = []"
| "ffill_from prev (x # xs) =
     (if x = NaN then prev # ffill_from prev xs else x # ffill_from x xs)"

fun changes_from :: "fl \<Rightarrow> fl list \<Rightarrow> fl list" where
  "changes_from prev [] = []"
| "changes_from prev (x # xs) = fl_sub (fl_div x prev) (Fin 1) # changes_from x xs"

definition pct_change :: "fl list \<Rightarrow> fl list" where
  "pct_change xs = changes_from NaN (ffill_from NaN xs)"

text \<open>
  \<open>Series.mean()\<close> and \<open>Series.std()\<close> skip \<open>NaN\<close>. The mean of nothing is
  \<open>NaN\<close>. The standard deviation has \<open>ddof=1\<close>: with \<open>n\<close> values left it is the
  square root of the sum of squared deviations from the mean divided by \<open>n - 1\<close>, and
  \<open>NaN\<close> when \<open>n \<le> 1\<close>. Only the entries that are \<open>NaN\<close> in the input are
  left out: a squared deviation that is itself \<open>NaN\<close> (from \<open>inf - inf\<close>) stays in
  the sum and makes the result \<open>NaN\<close>.
\<close>

definition fl_mean :: "fl list \<Rightarrow> fl" where
  "fl_mean xs =
     (let ys = dropna xs in
      if ys = [] then NaN else fl_div (nansum ys) (Fin (real (length ys))))"

definition fl_std :: "fl list \<Rightarrow> fl" where
  "fl_std xs =
     (let ys = dropna xs; n = length ys in
      if n \<le> 1 then NaN
      else
        let avg = fl_div (nansum ys) (Fin (real n));
            sqr = map (\<lambda>y. fl_mul (fl_sub avg y) (fl_sub avg y)) ys
        in fl_sqrt (fl_div (foldr fl_add sqr (Fin 0)) (Fin (real (n - 1)))))"

text \<open>\<open>Series.min()\<close> skips \<open>NaN\<close>; the minimum of nothing is \<open>NaN\<close>.\<close>

definition fl_min :: "fl list \<Rightarrow> fl" where
  "fl_min xs = (case dropna xs of [] \<Rightarrow> NaN | y # ys \<Rightarrow> foldl fl_min2 y ys)"

text \<open>
  \<open>Series.cummax()\<close>: the running maximum of the values seen so far. A \<open>NaN\<close> entry
  stays \<open>NaN\<close> and does not enter the running maximum.
\<close>

fun cummax_from :: "fl \<Rightarrow> fl list \<Rightarrow> fl list" where
  "cummax_from m [] = []"
| "cummax_from m (x # xs) =
     (if x = NaN then NaN # cummax_from m xs
      else fl_max m x # cummax_from (fl_max m x) xs)"

definition cummax :: "fl list \<Rightarrow> fl list" where
  "cummax xs = cummax_from NInf xs"

text \<open>
  \<^verbatim>\<open>
  def calculate_metrics(portfolio):
      returns = portfolio.pct_change().dropna()
      total_return = (portfolio.iloc[-1] / portfolio.iloc[0]) - 1
      volatility = returns.std() * (252 ** 0.5)
      sharpe_ratio = returns.mean() / returns.std() * (252 ** 0.5)
      max_drawdown = ((portfolio / portfolio.cummax()) - 1).min()
      return total_return, volatility, sharpe_ratio, max_drawdown
  \<close>
  \<open>portfolio.iloc[-1]\<close> raises \<open>IndexError\<close> on an empty series; nothing else in the
  function raises. The result is the tuple
  \<open>(total_return, volatility, sharpe_ratio, max_drawdown)\<close>.
\<close>

type_synonym metrics = "fl \<times> fl \<times> fl \<times> fl"

definition calculate_metrics :: "'d series \<Rightarrow> error + metrics" where
  "calculate_metrics portfolio =
     (let vals = map snd portfolio;
          returns = dropna (pct_change vals)
      in case vals of
           [] \<Rightarrow> Inl IndexError
         | v0 # _ \<Rightarrow>
             let total_return = fl_sub (fl_div (last vals) v0) (Fin 1);
                 volatility = fl_mul (fl_std returns) (Fin (sqrt 252));
                 sharpe_ratio =
                   fl_mul (fl_div (fl_mean returns) (fl_std returns)) (Fin (sqrt 252));
                 max_drawdown =
                   fl_min (map (\<lambda>x. fl_sub x (Fin 1)) (map2 fl_div vals (cummax vals)))
             in Inr (total_return, volatility, sharpe_ratio, max_drawdown))"

section \<open>The script\<close>

text \<open>
  The script validates its inputs before it simulates (lines 65 to 102 of main.py); each
  failed check shows a message and stops:
  \<^verbatim>\<open>
  if not all_stock_options:
      st.error("Please select at least one stock/ETF."); st.stop()
  allocations = [float(x)/100 for x in alloc_input.split(",")]
  if len(allocations) != len(ticker_list):
      st.error("Number of allocations must match number of tickers."); st.stop()
  if not abs(sum(allocations) - 1) < 1e-3:
      st.error("Allocations must sum up to 100%."); st.stop()
  data = fetch_data(ticker_list, start_date, end_date)
  if data.empty:
      st.error("Failed to fetch data. Please check tickers or date range."); st.stop()
  portfolio = simulate_portfolio(data, allocations, initial_investment)
  total_return, volatility, sharpe, drawdown = calculate_metrics(portfolio)
  \<close>
  The parsed percentages and the frame that \<open>fetch_data\<close> returns are parameters.
  Python's \<open>sum\<close> adds from the left starting at 0 and does not skip \<open>NaN\<close>.
\<close>

definition py_sum :: "fl list \<Rightarrow> fl" where
  "py_sum xs = foldl fl_add (Fin 0) xs"

definition allocations_of :: "fl list \<Rightarrow> fl list" where
  "allocations_of alloc_pct = map (\<lambda>x. fl_div x (Fin 100)) alloc_pct"

definition sum_ok :: "fl list \<Rightarrow> bool" where
  "sum_ok allocations = fl_less (fl_abs (fl_sub (py_sum allocations) (Fin 1))) (Fin (1 / 1000))"

definition run_simulation ::
  "string list \<Rightarrow> fl list \<Rightarrow> fl \<Rightarrow> 'd frame \<Rightarrow> error + ('d series \<times> metrics)" where
  "run_simulation ticker_list alloc_pct initial_investment data =
     (if ticker_list = [] then Inl SelectAtLeastOne
      else
        let allocations = allocations_of alloc_pct in
        if length allocations \<noteq> length ticker_list then Inl AllocationsCountMismatch
        else if \<not> sum_ok allocations then Inl AllocationsSumNot100
        else if frame_empty data then Inl FailedToFetch
        else
          case simulate_portfolio data allocations initial_investment of
            Inl e \<Rightarrow> Inl e
          | Inr portfolio \<Rightarrow>
              (case calculate_metrics portfolio of
                 Inl e \<Rightarrow> Inl e
               | Inr m \<Rightarrow> Inr (portfolio, m)))"

text \<open>
  The "Buy More" button (lines 130 to 133):
  \<^verbatim>\<open>
  initial_investment += 1000
  portfolio = simulate_portfolio(data, allocations, initial_investment)
  \<close>
\<close>

definition buy_more :: "'d frame \<Rightarrow> fl list \<Rightarrow> fl \<Rightarrow> error + 'd series" where
  "buy_more data allocations initial_investment =
     simulate_portfolio data allocations (fl_add initial_investment (Fin 1000))"

section \<open>Real-valued inputs and the formulas of the specification\<close>

text \<open>Frames and series whose values are all finite, given by their real values.\<close>

definition frame_of :: "string list \<Rightarrow> ('d \<times> real list) list \<Rightarrow> 'd frame" where
  "frame_of cols rs = \<lparr>columns = cols, rows = map (\<lambda>(d, r). (d, map Fin r)) rs\<rparr>"

definition series_of :: "('d \<times> real) list \<Rightarrow> 'd series" where
  "series_of vs = map (\<lambda>(d, v). (d, Fin v)) vs"

text \<open>
  The growth factor of the specification on one row \<open>r\<close>, given the first row \<open>r0\<close>
  and the weights \<open>w\<close>: the sum over the columns \<open>j\<close> of \<open>w\<^sub>j * (r\<^sub>j / r0\<^sub>j)\<close>.
\<close>

definition spec_growth :: "real list \<Rightarrow> real list \<Rightarrow> real list \<Rightarrow> real" where
  "spec_growth w r0 r = (\<Sum>j < length w. w ! j * (r ! j / r0 ! j))"

text \<open>The period returns of the specification: for each pair of consecutive values, the later
  over the earlier, minus 1.\<close>

definition spec_returns :: "real list \<Rightarrow> real list" where
  "spec_returns vs = map2 (\<lambda>prev cur. cur / prev - 1) vs (tl vs)"

definition spec_mean :: "real list \<Rightarrow> real" where
  "spec_mean xs = sum_list xs / real (length xs)"

text \<open>The sample standard deviation, with the \<open>N - 1\<close> denominator.\<close>

definition spec_std :: "real list \<Rightarrow> real" where
  "spec_std xs =
     sqrt ((\<Sum>x \<leftarrow> xs. (x - spec_mean xs)\<^sup>2) / real (length xs - 1))"

text \<open>The drawdown at position \<open>k\<close>: the value over the maximum of the values up to \<open>k\<close>, minus 1.\<close>

definition spec_drawdown :: "real list \<Rightarrow> nat \<Rightarrow> real" where
  "spec_drawdown vs k = vs ! k / Max (set (take (Suc k) vs)) - 1"

definition spec_max_drawdown :: "real list \<Rightarrow> real" where
  "spec_max_drawdown vs = Min (spec_drawdown vs ` {..< length vs})"

text \<open>Selecting the entries of a list at the positions \<open>ps\<close>, in that order.\<close>

definition permute :: "nat list \<Rightarrow> 'a list \<Rightarrow> 'a list" where
  "permute ps xs = map (\<lambda>i. xs ! i) ps"

definition permute_frame :: "nat list \<Rightarrow> 'd frame \<Rightarrow> 'd frame" where
  "permute_frame ps data =
     \<lparr>columns = permute ps (columns data),
      rows = map (\<lambda>(d, r). (d, permute ps r)) (rows data)\<rparr>"

text \<open>Multiplying every price of column \<open>j\<close> by the constant \<open>c\<close>.\<close>

definition scale_column :: "nat \<Rightarrow> real \<Rightarrow> 'd frame \<Rightarrow> 'd frame" where
  "scale_column j c data =
     data\<lparr>rows := map (\<lambda>(d, r). (d, r[j := fl_mul (r ! j) (Fin c)])) (rows data)\<rparr>"

definition scale_series :: "real \<Rightarrow> 'd series \<Rightarrow> 'd series" where
  "scale_series c s = map (\<lambda>(d, v). (d, fl_mul (Fin c) v)) s"

section \<open>Evaluation on the scenarios of the specification\<close>

lemma simulate_portfolio_example:
  "simulate_portfolio
     \<lparr>columns = [''AAPL'', ''MSFT''],
      rows = [(0::nat, [Fin 100, Fin 50]), (1, [Fin 110, Fin 55]), (2, [Fin 99, Fin 45])]\<rparr>
     [Fin (1/2), Fin (1/2)] (Fin 10000)
   = Inr [(0, Fin 10000), (1, Fin 11000), (2, Fin 9450)]"
  by (simp add: simulate_portfolio_def nansum_def dropna_def)

section \<open>Finite values\<close>

lemma dropna_map_Fin: "dropna (map Fin xs) = map Fin xs"
  by (induction xs) (simp_all add: dropna_def)

lemma foldr_add_Fin: "foldr fl_add (map Fin xs) (Fin a) = Fin (sum_list xs + a)"
  by (induction xs) simp_all

lemma nansum_map_Fin: "nansum (map Fin xs) = Fin (sum_list xs)"
  by (simp add: nansum_def dropna_map_Fin foldr_add_Fin)

lemma map2_div_Fin:
  "\<forall>x \<in> set r0. x \<noteq> 0 \<Longrightarrow> map2 fl_div (map Fin r) (map Fin r0) = map Fin (map2 (/) r r0)"
proof (induction r arbitrary: r0)
  case Nil
  then show ?case by simp
next
  case (Cons a r)
  then show ?case by (cases r0) simp_all
qed

lemma map2_mul_Fin: "map2 fl_mul (map Fin a) (map Fin b) = map Fin (map2 (*) a b)"
proof (induction a arbitrary: b)
  case Nil
  then show ?case by simp
next
  case (Cons x a)
  then show ?case by (cases b) simp_all
qed

lemma sum_list_growth:
  assumes "length r = length w" "length r0 = length w"
  shows "sum_list (map2 (*) (map2 (/) r r0) w) = spec_growth w r0 r"
proof -
  have "sum_list (map2 (*) (map2 (/) r r0) w)
      = (\<Sum>j < length w. map2 (*) (map2 (/) r r0) w ! j)"
    using assms by (simp add: sum_list_sum_nth atLeast0LessThan)
  also have "\<dots> = (\<Sum>j < length w. w ! j * (r ! j / r0 ! j))"
    using assms by (intro sum.cong) (simp_all add: mult.commute)
  finally show ?thesis by (simp add: spec_growth_def)
qed

lemma simulate_real:
  assumes rs: "rs = (d0, r0) # rest"
    and len: "\<forall>(d, r) \<in> set rs. length r = length w"
    and cols: "length cols = length w"
    and nz: "\<forall>x \<in> set r0. x \<noteq> 0"
  shows "simulate_portfolio (frame_of cols rs) (map Fin w) (Fin i)
       = Inr (map (\<lambda>(d, r). (d, Fin (spec_growth w r0 r * i))) rs)"
proof -
  have l0: "length r0 = length w" using rs len by auto
  have row: "fl_mul (nansum (map2 fl_mul (map2 fl_div (map Fin r) (map Fin r0)) (map Fin w))) (Fin i)
           = Fin (spec_growth w r0 r * i)" if "length r = length w" for r
    by (simp only: map2_div_Fin[OF nz] map2_mul_Fin nansum_map_Fin fl_mul.simps
        sum_list_growth[OF that l0])
  have "map (\<lambda>(d, r). (d, fl_mul (nansum (map2 fl_mul (map2 fl_div (map Fin r) (map Fin r0)) (map Fin w))) (Fin i))) rs
      = map (\<lambda>(d, r). (d, Fin (spec_growth w r0 r * i))) rs"
    using len row by (intro map_cong) auto
  then show ?thesis
    using cols by (simp add: simulate_portfolio_def frame_of_def rs Let_def comp_def case_prod_unfold)
qed

section \<open>Metrics of finite series\<close>

lemma ffill_from_Fin: "ffill_from p (map Fin vs) = map Fin vs"
  by (induction vs arbitrary: p) simp_all

lemma changes_from_Fin:
  "p \<noteq> 0 \<Longrightarrow> \<forall>x \<in> set vs. x \<noteq> 0 \<Longrightarrow>
   changes_from (Fin p) (map Fin vs) = map Fin (map2 (\<lambda>prev cur. cur / prev - 1) (p # vs) vs)"
proof (induction vs arbitrary: p)
  case Nil
  then show ?case by simp
next
  case (Cons a vs)
  then show ?case by (simp add: fl_sub_def)
qed

lemma pct_change_Fin:
  assumes "\<forall>x \<in> set (v # vs). x \<noteq> 0"
  shows "pct_change (map Fin (v # vs)) = NaN # map Fin (spec_returns (v # vs))"
  using assms changes_from_Fin[of v vs]
  by (simp add: pct_change_def ffill_from_Fin spec_returns_def fl_sub_def)

lemma fl_mean_Fin: "xs \<noteq> [] \<Longrightarrow> fl_mean (map Fin xs) = Fin (spec_mean xs)"
  by (simp add: fl_mean_def dropna_map_Fin nansum_map_Fin spec_mean_def)

lemma fl_mean_Nil: "fl_mean [] = NaN"
  by (simp add: fl_mean_def dropna_def)

lemma sqr_map_Fin:
  "map (\<lambda>y. fl_mul (fl_sub (Fin a) y) (fl_sub (Fin a) y)) (map Fin xs)
   = map Fin (map (\<lambda>x. (x - a)\<^sup>2) xs)"
  by (induction xs) (simp_all add: fl_sub_def power2_eq_square algebra_simps)

lemma fl_std_Fin:
  assumes "2 \<le> length xs"
  shows "fl_std (map Fin xs) = Fin (spec_std xs)"
proof -
  have n: "\<not> length xs \<le> 1" "xs \<noteq> []" using assms by auto
  have avg: "fl_div (nansum (map Fin xs)) (Fin (real (length xs))) = Fin (spec_mean xs)"
    using n by (simp add: nansum_map_Fin spec_mean_def)
  have nonneg: "0 \<le> (\<Sum>x\<leftarrow>xs. (x - spec_mean xs)\<^sup>2) / real (length xs - 1)"
    by (intro divide_nonneg_nonneg sum_list_nonneg) auto
  have "fl_std (map Fin xs)
      = fl_sqrt (fl_div (foldr fl_add (map Fin (map (\<lambda>x. (x - spec_mean xs)\<^sup>2) xs)) (Fin 0))
                        (Fin (real (length xs - 1))))"
    using n by (simp only: fl_std_def Let_def dropna_map_Fin length_map avg sqr_map_Fin if_False)
  also have "\<dots> = fl_sqrt (fl_div (Fin ((\<Sum>x\<leftarrow>xs. (x - spec_mean xs)\<^sup>2) + 0))
                        (Fin (real (length xs - 1))))"
    by (simp only: foldr_add_Fin)
  also have "\<dots> = Fin (spec_std xs)"
    using assms nonneg by (simp add: spec_std_def)
  finally show ?thesis .
qed

lemma fl_std_short: "length xs \<le> 1 \<Longrightarrow> fl_std xs = NaN"
proof -
  assume "length xs \<le> 1"
  moreover have "length (dropna xs) \<le> length xs" by (simp add: dropna_def)
  ultimately show ?thesis by (simp add: fl_std_def Let_def)
qed

lemma length_cummax_from: "length (cummax_from m xs) = length xs"
  by (induction xs arbitrary: m) simp_all

lemma fl_max_Fin: "fl_max (Fin a) (Fin b) = Fin (max a b)"
  by (simp add: fl_max_def max_def)

lemma fl_min2_Fin: "fl_min2 (Fin a) (Fin b) = Fin (min b a)"
  by (simp add: fl_min2_def min_def)

lemma cummax_from_Fin_nth:
  "k < length vs \<Longrightarrow>
   cummax_from (Fin m) (map Fin vs) ! k = Fin (max m (Max (set (take (Suc k) vs))))"
proof (induction vs arbitrary: m k)
  case Nil
  then show ?case by simp
next
  case (Cons a vs)
  show ?case
  proof (cases k)
    case 0
    then show ?thesis by (simp add: fl_max_Fin)
  next
    case (Suc j)
    with Cons.prems have j: "j < length vs" by simp
    then have ne: "set (take (Suc j) vs) \<noteq> {}" by (cases vs) auto
    have "Max (set (take (Suc k) (a # vs))) = max a (Max (set (take (Suc j) vs)))"
      using ne Suc by simp
    then show ?thesis
      using Cons.IH[OF j, of "max m a"] Suc by (simp add: fl_max_Fin max.assoc)
  qed
qed

lemma cummax_Fin_nth:
  assumes "k < length vs"
  shows "cummax (map Fin vs) ! k = Fin (Max (set (take (Suc k) vs)))"
proof (cases vs)
  case Nil
  with assms show ?thesis by simp
next
  case (Cons a rest)
  show ?thesis
  proof (cases k)
    case 0
    then show ?thesis by (simp add: cummax_def Cons fl_max_def)
  next
    case (Suc j)
    with assms Cons have j: "j < length rest" by simp
    then have ne: "set (take (Suc j) rest) \<noteq> {}" by (cases rest) auto
    have "cummax (map Fin vs) ! k = cummax_from (Fin a) (map Fin rest) ! j"
      by (simp add: cummax_def Cons Suc fl_max_def)
    also have "\<dots> = Fin (max a (Max (set (take (Suc j) rest))))"
      by (rule cummax_from_Fin_nth[OF j])
    also have "max a (Max (set (take (Suc j) rest))) = Max (set (take (Suc k) vs))"
      using ne by (simp add: Cons Suc)
    finally show ?thesis .
  qed
qed

lemma prefix_Max_ge:
  assumes "k < length vs"
  shows "vs ! k \<le> Max (set (take (Suc k) vs))"
proof -
  have "vs ! k \<in> set (take (Suc k) vs)"
    using assms by (metis lessI nth_take length_take min_less_iff_conj nth_mem)
  then show ?thesis by simp
qed

lemma prefix_Max_pos:
  fixes vs :: "real list"
  assumes "k < length vs" "\<forall>x \<in> set vs. 0 < x"
  shows "0 < Max (set (take (Suc k) vs))"
proof -
  have "0 < vs ! k" using assms by simp
  with prefix_Max_ge[OF assms(1)] show ?thesis by linarith
qed

lemma drawdowns_Fin:
  assumes pos: "\<forall>x \<in> set vs. 0 < x"
  shows "map (\<lambda>x. fl_sub x (Fin 1)) (map2 fl_div (map Fin vs) (cummax (map Fin vs)))
       = map Fin (map (spec_drawdown vs) [0 ..< length vs])"
proof (rule nth_equalityI)
  show "length (map (\<lambda>x. fl_sub x (Fin 1)) (map2 fl_div (map Fin vs) (cummax (map Fin vs))))
      = length (map Fin (map (spec_drawdown vs) [0 ..< length vs]))"
    by (simp add: cummax_def length_cummax_from)
next
  fix k
  assume "k < length (map (\<lambda>x. fl_sub x (Fin 1)) (map2 fl_div (map Fin vs) (cummax (map Fin vs))))"
  then have k: "k < length vs" by (simp add: cummax_def length_cummax_from)
  have nz: "Max (set (take (Suc k) vs)) \<noteq> 0"
    using prefix_Max_pos[OF k pos] by simp
  show "map (\<lambda>x. fl_sub x (Fin 1)) (map2 fl_div (map Fin vs) (cummax (map Fin vs))) ! k
      = map Fin (map (spec_drawdown vs) [0 ..< length vs]) ! k"
    using k nz
    by (simp add: cummax_def length_cummax_from cummax_Fin_nth[OF k, unfolded cummax_def]
        fl_sub_def spec_drawdown_def)
qed

lemma foldl_min2_Fin: "foldl fl_min2 (Fin a) (map Fin ys) = Fin (fold min ys a)"
  by (induction ys arbitrary: a) (simp_all add: fl_min2_Fin)

lemma fl_min_Fin:
  assumes "xs \<noteq> []"
  shows "fl_min (map Fin xs) = Fin (Min (set xs))"
proof -
  obtain y ys where xs: "xs = y # ys" using assms by (cases xs) auto
  have "dropna (map Fin xs) = Fin y # map Fin ys"
    using dropna_map_Fin[of xs] by (simp add: xs)
  then have "fl_min (map Fin xs) = Fin (fold min ys y)"
    by (simp add: fl_min_def foldl_min2_Fin)
  also have "fold min ys y = Min (set xs)"
    unfolding xs by (rule Min.set_eq_fold[symmetric])
  finally show ?thesis .
qed

lemma max_drawdown_Fin:
  assumes "vs \<noteq> []" "\<forall>x \<in> set vs. 0 < x"
  shows "fl_min (map (\<lambda>x. fl_sub x (Fin 1)) (map2 fl_div (map Fin vs) (cummax (map Fin vs))))
       = Fin (spec_max_drawdown vs)"
proof -
  have ne: "map (spec_drawdown vs) [0 ..< length vs] \<noteq> []" using assms(1) by simp
  have "set (map (spec_drawdown vs) [0 ..< length vs]) = spec_drawdown vs ` {..< length vs}"
    by (simp add: atLeast0LessThan)
  then show ?thesis
    by (simp only: drawdowns_Fin[OF assms(2)] fl_min_Fin[OF ne] spec_max_drawdown_def)
qed

lemma map_snd_series_of: "map snd (series_of dvs) = map Fin (map snd dvs)"
  by (simp add: series_of_def case_prod_unfold comp_def)

lemma calculate_metrics_Nil: "calculate_metrics [] = Inl IndexError"
  by (simp add: calculate_metrics_def)

lemma calculate_metrics_Fin:
  assumes vs: "map snd dvs = v # rest"
    and nz: "\<forall>x \<in> set (v # rest). x \<noteq> 0"
  shows "calculate_metrics (series_of dvs) =
     Inr (Fin (last (v # rest) / v - 1),
          fl_mul (fl_std (map Fin (spec_returns (v # rest)))) (Fin (sqrt 252)),
          fl_mul (fl_div (fl_mean (map Fin (spec_returns (v # rest))))
                         (fl_std (map Fin (spec_returns (v # rest))))) (Fin (sqrt 252)),
          fl_min (map (\<lambda>x. fl_sub x (Fin 1))
                   (map2 fl_div (map Fin (v # rest)) (cummax (map Fin (v # rest))))))"
proof -
  have vals: "map snd (series_of dvs) = map Fin (v # rest)"
    by (simp only: map_snd_series_of vs)
  have ret: "dropna (pct_change (map Fin (v # rest))) = map Fin (spec_returns (v # rest))"
    by (simp only: pct_change_Fin[OF nz]) (simp add: dropna_def dropna_map_Fin[unfolded dropna_def])
  have lst: "last (map Fin (v # rest)) = Fin (last (v # rest))"
    by (simp only: last_map[OF list.distinct(2)])
  have tr: "fl_sub (fl_div (last (map Fin (v # rest))) (Fin v)) (Fin 1) = Fin (last (v # rest) / v - 1)"
    using nz by (simp only: lst) (simp add: fl_sub_def)
  show ?thesis
    unfolding calculate_metrics_def Let_def vals ret
    using tr by (simp del: last.simps)
qed

lemma length_spec_returns: "length (spec_returns vs) = length vs - 1"
  by (simp add: spec_returns_def)

lemma nth_in_prefix:
  assumes "i \<le> k" "k < length vs"
  shows "vs ! i \<in> set (take (Suc k) vs)"
proof -
  have "i < length (take (Suc k) vs)" using assms by simp
  then have "take (Suc k) vs ! i \<in> set (take (Suc k) vs)" by (rule nth_mem)
  moreover have "take (Suc k) vs ! i = vs ! i" using assms by simp
  ultimately show ?thesis by simp
qed

lemma prefix_Max_eq_iff_sorted:
  fixes vs :: "real list"
  shows "(\<forall>k < length vs. vs ! k = Max (set (take (Suc k) vs))) \<longleftrightarrow> sorted vs"
proof
  assume h: "\<forall>k < length vs. vs ! k = Max (set (take (Suc k) vs))"
  show "sorted vs"
    unfolding sorted_iff_nth_mono
  proof (intro allI impI)
    fix i j
    assume "i \<le> j" "j < length vs"
    then have "vs ! i \<in> set (take (Suc j) vs)"
      by (rule nth_in_prefix)
    then have "vs ! i \<le> Max (set (take (Suc j) vs))"
      by (intro Max_ge) simp_all
    with h \<open>j < length vs\<close> show "vs ! i \<le> vs ! j" by simp
  qed
next
  assume s: "sorted vs"
  show "\<forall>k < length vs. vs ! k = Max (set (take (Suc k) vs))"
  proof (intro allI impI)
    fix k
    assume k: "k < length vs"
    have "Max (set (take (Suc k) vs)) = vs ! k"
    proof (rule Max_eqI)
      show "finite (set (take (Suc k) vs))" by simp
      show "vs ! k \<in> set (take (Suc k) vs)" using k by (rule nth_in_prefix[OF le_refl])
      fix y
      assume "y \<in> set (take (Suc k) vs)"
      then obtain i where i: "i < length (take (Suc k) vs)" "y = take (Suc k) vs ! i"
        unfolding in_set_conv_nth by blast
      then have "i \<le> k" "y = vs ! i" by simp_all
      with s k show "y \<le> vs ! k"
        using sorted_nth_mono[of vs i k] by simp
    qed
    then show "vs ! k = Max (set (take (Suc k) vs))" by simp
  qed
qed

lemma spec_drawdown_le_0:
  assumes "k < length vs" "\<forall>x \<in> set vs. 0 < x"
  shows "spec_drawdown vs k \<le> 0"
  using prefix_Max_ge[OF assms(1)] prefix_Max_pos[OF assms]
  by (simp add: spec_drawdown_def)

lemma spec_drawdown_eq_0:
  assumes "k < length vs" "\<forall>x \<in> set vs. 0 < x"
  shows "spec_drawdown vs k = 0 \<longleftrightarrow> vs ! k = Max (set (take (Suc k) vs))"
  using prefix_Max_pos[OF assms]
  by (auto simp: spec_drawdown_def)

lemma spec_max_drawdown_le_0:
  assumes "vs \<noteq> []" "\<forall>x \<in> set vs. 0 < x"
  shows "spec_max_drawdown vs \<le> 0"
proof -
  have "0 < length vs" using assms(1) by simp
  then have "spec_max_drawdown vs \<le> spec_drawdown vs 0"
    unfolding spec_max_drawdown_def by (intro Min_le) auto
  also have "\<dots> \<le> 0" using \<open>0 < length vs\<close> assms(2) by (rule spec_drawdown_le_0)
  finally show ?thesis .
qed

lemma spec_max_drawdown_eq_0:
  assumes ne: "vs \<noteq> []" and pos: "\<forall>x \<in> set vs. 0 < x"
  shows "spec_max_drawdown vs = 0 \<longleftrightarrow> sorted vs"
proof -
  let ?S = "spec_drawdown vs ` {..< length vs}"
  have fin: "finite ?S" and nonempty: "?S \<noteq> {}" using ne by auto
  have "Min ?S = 0 \<longleftrightarrow> (\<forall>k < length vs. spec_drawdown vs k = 0)"
  proof
    assume m: "Min ?S = 0"
    show "\<forall>k < length vs. spec_drawdown vs k = 0"
    proof (intro allI impI)
      fix k
      assume k: "k < length vs"
      then have "Min ?S \<le> spec_drawdown vs k" by (intro Min_le) auto
      with m spec_drawdown_le_0[OF k pos] show "spec_drawdown vs k = 0" by simp
    qed
  next
    assume a: "\<forall>k < length vs. spec_drawdown vs k = 0"
    have "Min ?S \<in> ?S" using fin nonempty by (rule Min_in)
    with a show "Min ?S = 0" by auto
  qed
  also have "\<dots> \<longleftrightarrow> (\<forall>k < length vs. vs ! k = Max (set (take (Suc k) vs)))"
    using spec_drawdown_eq_0[OF _ pos] by simp
  also have "\<dots> \<longleftrightarrow> sorted vs" by (rule prefix_Max_eq_iff_sorted)
  finally show ?thesis by (simp add: spec_max_drawdown_def)
qed

lemma fl_mul_inf_of_pos: "0 < s \<Longrightarrow> fl_mul (inf_of m) (Fin s) = inf_of m"
  by (simp add: inf_of_def)

lemma example_returns_mean: "spec_mean [1 / 10, - (31 / 220)] = - (9 / 440)"
  by (simp add: spec_mean_def)

lemma example_returns_std: "spec_std [1 / 10, - (31 / 220)] = sqrt (2809 / 96800)"
  by (simp add: spec_std_def example_returns_mean power2_eq_square)

lemma spec_returns_const:
  assumes "v \<noteq> 0"
  shows "spec_returns (replicate n v) = replicate (n - 1) 0"
proof -
  have "tl (replicate n v) = replicate (n - 1) v" by (cases n) simp_all
  then show ?thesis
    using assms by (simp add: spec_returns_def zip_replicate map_replicate_const)
qed

lemma spec_mean_zeros: "spec_mean (replicate m 0) = 0"
  by (simp add: spec_mean_def sum_list_replicate)

lemma spec_std_zeros: "spec_std (replicate m 0) = 0"
  by (simp add: spec_std_def spec_mean_zeros sum_list_replicate map_replicate_const)

lemma cummax_from_const:
  "cummax_from (Fin v) (replicate n (Fin v)) = replicate n (Fin v)"
  by (induction n) (simp_all add: fl_max_def)

lemma cummax_const: "cummax (replicate n (Fin v)) = replicate n (Fin v)"
  by (cases n) (simp_all add: cummax_def fl_max_def cummax_from_const)

lemma max_drawdown_const:
  assumes "v \<noteq> 0" "0 < n"
  shows "fl_min (map (\<lambda>x. fl_sub x (Fin 1))
           (map2 fl_div (replicate n (Fin v)) (cummax (replicate n (Fin v))))) = Fin 0"
proof -
  have e: "map (\<lambda>x. fl_sub x (Fin 1))
          (map2 fl_div (replicate n (Fin v)) (cummax (replicate n (Fin v))))
        = map Fin (replicate n 0)"
    using assms(1) by (simp add: cummax_const zip_replicate fl_sub_def)
  have ne: "replicate n (0::real) \<noteq> []" using assms(2) by simp
  have "fl_min (map (\<lambda>x. fl_sub x (Fin 1))
           (map2 fl_div (replicate n (Fin v)) (cummax (replicate n (Fin v)))))
      = fl_min (map Fin (replicate n 0))"
    by (simp only: e)
  also have "\<dots> = Fin (Min (set (replicate n 0)))" by (rule fl_min_Fin[OF ne])
  also have "\<dots> = Fin 0" using assms(2) by simp
  finally show ?thesis .
qed

lemma spec_growth_first:
  assumes "length r0 = length w" "\<forall>x \<in> set r0. x \<noteq> 0"
  shows "spec_growth w r0 r0 = sum_list w"
proof -
  have "spec_growth w r0 r0 = (\<Sum>j < length w. w ! j)"
    unfolding spec_growth_def using assms by (intro sum.cong) simp_all
  also have "\<dots> = sum_list w"
    by (simp add: sum_list_sum_nth atLeast0LessThan)
  finally show ?thesis .
qed

lemma foldl_add_Fin: "foldl fl_add (Fin a) (map Fin xs) = Fin (a + sum_list xs)"
  by (induction xs arbitrary: a) (simp_all add: algebra_simps)

lemma sum_ok_Fin: "sum_ok (map Fin w) \<longleftrightarrow> \<bar>sum_list w - 1\<bar> < 1 / 1000"
  by (simp add: sum_ok_def py_sum_def foldl_add_Fin fl_sub_def)

lemma inf_of_scale: "0 < c \<Longrightarrow> inf_of (a * c) = inf_of a"
  by (simp add: inf_of_def zero_less_mult_iff mult_less_0_iff)

lemma fl_div_scale:
  assumes "0 < c"
  shows "fl_div (fl_mul p (Fin c)) (fl_mul q (Fin c)) = fl_div p q"
proof -
  have c: "inf_of c = PInf" "inf_of (- c) = NInf" using assms by (simp_all add: inf_of_def)
  have s: "0 \<le> b * c \<longleftrightarrow> 0 \<le> b" for b using assms by (simp add: zero_le_mult_iff)
  show ?thesis
    using assms by (cases p; cases q) (simp_all add: c s inf_of_scale)
qed

lemma row_div_scale:
  assumes "0 < c"
  shows "map2 fl_div (r[j := fl_mul (r ! j) (Fin c)]) (f[j := fl_mul (f ! j) (Fin c)])
       = map2 fl_div r f"
proof (rule nth_equalityI)
  show "length (map2 fl_div (r[j := fl_mul (r ! j) (Fin c)]) (f[j := fl_mul (f ! j) (Fin c)]))
      = length (map2 fl_div r f)" by simp
next
  fix k
  assume "k < length (map2 fl_div (r[j := fl_mul (r ! j) (Fin c)]) (f[j := fl_mul (f ! j) (Fin c)]))"
  then have k: "k < length r" "k < length f" by simp_all
  show "map2 fl_div (r[j := fl_mul (r ! j) (Fin c)]) (f[j := fl_mul (f ! j) (Fin c)]) ! k
      = map2 fl_div r f ! k"
    using k fl_div_scale[OF assms] by (cases "k = j") simp_all
qed

lemma fl_mul_homog:
  assumes "0 < c"
  shows "fl_mul s (fl_mul (Fin c) i) = fl_mul (Fin c) (fl_mul s i)"
proof -
  have c: "inf_of c = PInf" "inf_of (- c) = NInf" using assms by (simp_all add: inf_of_def)
  have i1: "inf_of (c * a) = inf_of a" for a
    using inf_of_scale[OF assms, of a] by (simp add: mult.commute)
  have i2: "inf_of (- (c * a)) = inf_of (- a)" for a
    using inf_of_scale[OF assms, of "- a"] by (simp add: mult.commute)
  have i3: "inf_of (a * c) = inf_of a" for a
    by (rule inf_of_scale[OF assms])
  have i4: "inf_of (- (a * c)) = inf_of (- a)" for a
    using inf_of_scale[OF assms, of "- a"] by simp
  have m: "fl_mul (Fin c) (inf_of a) = inf_of a" for a
    using assms by (simp add: inf_of_def)
  show ?thesis
    by (cases s; cases i) (simp_all add: c i1 i2 i3 i4 m algebra_simps)
qed

lemma permute_map: "\<forall>k \<in> set ps. k < length xs \<Longrightarrow> permute ps (map f xs) = map f (permute ps xs)"
  by (simp add: permute_def)

lemma length_permute: "length (permute ps xs) = length ps"
  by (simp add: permute_def)

lemma perm_indices:
  assumes "mset ps = mset [0 ..< n]"
  shows "length ps = n" and "\<forall>k \<in> set ps. k < n"
proof -
  show "length ps = n" using assms by (metis size_mset length_upt diff_zero)
  have "set ps = set [0 ..< n]" using assms by (rule mset_eq_setD)
  then show "\<forall>k \<in> set ps. k < n" by simp
qed

lemma spec_growth_permute:
  assumes "mset ps = mset [0 ..< length w]"
  shows "spec_growth (permute ps w) (permute ps r0) (permute ps r) = spec_growth w r0 r"
proof -
  let ?g = "\<lambda>k. w ! k * (r ! k / r0 ! k)"
  have "spec_growth (permute ps w) (permute ps r0) (permute ps r)
      = (\<Sum>j < length ps. ?g (ps ! j))"
    unfolding spec_growth_def length_permute
    by (intro sum.cong) (simp_all add: permute_def)
  also have "\<dots> = sum_list (map ?g ps)"
    by (simp add: sum_list_sum_nth atLeast0LessThan)
  also have "\<dots> = sum_mset (image_mset ?g (mset ps))"
    by (simp only: sum_mset_sum_list[symmetric] mset_map)
  also have "\<dots> = sum_mset (image_mset ?g (mset [0 ..< length w]))"
    by (simp only: assms)
  also have "\<dots> = sum_list (map ?g [0 ..< length w])"
    by (simp only: sum_mset_sum_list[symmetric] mset_map)
  also have "\<dots> = spec_growth w r0 r"
    by (simp add: spec_growth_def sum_list_sum_nth atLeast0LessThan)
  finally show ?thesis .
qed

section \<open>The simulated series\<close>

text \<open>
  C1. For a price table with at least one row, finite prices, non-zero prices on the first
  date and one finite weight per column, \<open>simulate_portfolio\<close> returns a series over
  the dates of the table, in the same order, none added and none dropped; its value on
  each date is the sum over the columns \<open>j\<close> of
  \<open>weight\<^sub>j * (price[t, j] / price[first date, j])\<close>, multiplied by the initial
  investment.
\<close>

theorem simulate_portfolio_formula:
  assumes "rs = (d0, r0) # rest"
    and "\<forall>(d, r) \<in> set rs. length r = length w"
    and "length cols = length w"
    and "\<forall>x \<in> set r0. x \<noteq> 0"
  shows "\<exists>out. simulate_portfolio (frame_of cols rs) (map Fin w) (Fin i) = Inr out
           \<and> map fst out = map fst rs
           \<and> map snd out = map (\<lambda>(d, r). Fin (spec_growth w r0 r * i)) rs"
  using simulate_real[OF assms, of i] by (simp add: comp_def case_prod_unfold)

theorem simulate_portfolio_formula_witness:
  "\<exists>out. simulate_portfolio
            (frame_of [''AAPL'', ''MSFT'']
               [(0::nat, [100, 50]), (1, [110, 55]), (2, [99, 45])])
            (map Fin [1/2, 1/2]) (Fin 10000) = Inr out
         \<and> map fst out = [0, 1, 2]
         \<and> map snd out = [Fin 10000, Fin 11000, Fin 9450]"
  using simulate_portfolio_formula
    [of "[(0::nat, [100, 50]), (1, [110, 55]), (2, [99, 45])]" 0 "[100, 50]"
        "[(1, [110, 55]), (2, [99, 45])]" "[1/2, 1/2]" "[''AAPL'', ''MSFT'']" 10000]
  by (simp add: spec_growth_def lessThan_Suc)

text \<open>
  C3, as the code has it. For a price table with at least one row, finite prices,
  non-zero prices on the first date and one finite weight per column, the first value of
  the series is the initial investment times the sum of the weights. It is the initial
  investment itself when the weights sum to exactly 1; when the weights pass the
  script's check \<open>abs(sum(allocations) - 1) < 1e-3\<close> it is within a relative
  tolerance of \<open>1e-3\<close> of the initial investment, not \<open>1e-9\<close>.
\<close>

theorem first_value_is_weight_sum:
  assumes "rs = (d0, r0) # rest"
    and "\<forall>(d, r) \<in> set rs. length r = length w"
    and "length cols = length w"
    and "\<forall>x \<in> set r0. x \<noteq> 0"
  shows "\<exists>out. simulate_portfolio (frame_of cols rs) (map Fin w) (Fin i) = Inr out
           \<and> hd out = (d0, Fin (sum_list w * i))
           \<and> (sum_list w = 1 \<longrightarrow> hd out = (d0, Fin i))
           \<and> (sum_ok (map Fin w) \<longrightarrow> \<bar>sum_list w * i - i\<bar> \<le> \<bar>i\<bar> / 1000)"
proof -
  have l0: "length r0 = length w" using assms(1,2) by auto
  have g: "spec_growth w r0 r0 = sum_list w" by (rule spec_growth_first[OF l0 assms(4)])
  have tol: "\<bar>sum_list w * i - i\<bar> \<le> \<bar>i\<bar> / 1000" if "sum_ok (map Fin w)"
  proof -
    have "\<bar>sum_list w - 1\<bar> < 1 / 1000" using that by (simp only: sum_ok_Fin)
    then have "\<bar>sum_list w - 1\<bar> * \<bar>i\<bar> \<le> (1 / 1000) * \<bar>i\<bar>"
      by (intro mult_right_mono) simp_all
    moreover have "sum_list w * i - i = (sum_list w - 1) * i" by (simp add: algebra_simps)
    ultimately show ?thesis by (simp add: abs_mult)
  qed
  have "simulate_portfolio (frame_of cols rs) (map Fin w) (Fin i)
      = Inr (map (\<lambda>(d, r). (d, Fin (spec_growth w r0 r * i))) rs)"
    by (rule simulate_real[OF assms])
  moreover have "hd (map (\<lambda>(d, r). (d, Fin (spec_growth w r0 r * i))) rs)
      = (d0, Fin (sum_list w * i))"
    by (simp add: assms(1) g)
  ultimately show ?thesis using tol by auto
qed

theorem first_value_is_weight_sum_witness:
  "\<exists>out. simulate_portfolio
            (frame_of [''AAPL'', ''MSFT''] [(0::nat, [100, 50]), (1, [110, 55])])
            (map Fin [1/2, 1/2]) (Fin 10000) = Inr out
         \<and> hd out = (0, Fin 10000)"
  using first_value_is_weight_sum
    [of "[(0::nat, [100, 50]), (1, [110, 55])]" 0 "[100, 50]" "[(1, [110, 55])]"
        "[1/2, 1/2]" "[''AAPL'', ''MSFT'']" 10000]
  by simp

text \<open>
  The script's own default allocation for three tickers is \<open>33.33\<close> percent each
  (\<open>round(100/3, 2)\<close>); it passes the check and the series starts at 9999 for an
  initial investment of 10000.
\<close>

theorem first_value_tolerance_counterexample:
  "sum_ok [Fin (3333 / 10000), Fin (3333 / 10000), Fin (3333 / 10000)]
   \<and> simulate_portfolio
        \<lparr>columns = [''AAPL'', ''MSFT'', ''SPY''],
         rows = [(0::nat, [Fin 100, Fin 50, Fin 300]), (1, [Fin 110, Fin 55, Fin 330])]\<rparr>
        [Fin (3333 / 10000), Fin (3333 / 10000), Fin (3333 / 10000)] (Fin 10000)
      = Inr [(0, Fin 9999), (1, Fin (109989 / 10))]
   \<and> \<not> \<bar>9999 - 10000\<bar> \<le> (10000 :: real) / 10 ^ 9"
  by (simp add: sum_ok_def py_sum_def fl_sub_def simulate_portfolio_def nansum_def dropna_def)

text \<open>
  C7, as the code has it. \<open>allocations\<close> is a list of numbers without tickers, and
  \<open>simulate_portfolio\<close> pairs the weight at position \<open>k\<close> with the column at
  position \<open>k\<close>. For a table of finite prices with non-zero first row, the series is
  unchanged when the columns of the table and the weights are reordered by the same
  permutation \<open>ps\<close> of the positions.
\<close>

theorem simulate_positional:
  assumes rs: "rs = (d0, r0) # rest"
    and len: "\<forall>(d, r) \<in> set rs. length r = length w"
    and cols: "length cols = length w"
    and nz: "\<forall>x \<in> set r0. x \<noteq> 0"
    and perm: "mset ps = mset [0 ..< length w]"
  shows "simulate_portfolio (permute_frame ps (frame_of cols rs)) (permute ps (map Fin w)) (Fin i)
       = simulate_portfolio (frame_of cols rs) (map Fin w) (Fin i)"
proof -
  note idx = perm_indices[OF perm]
  let ?rs' = "map (\<lambda>(d, r). (d, permute ps r)) rs"
  have l0: "length r0 = length w" using rs len by auto
  have w': "permute ps (map Fin w) = map Fin (permute ps w)"
    using idx(2) by (rule permute_map)
  have rowp: "permute ps (map Fin r) = map Fin (permute ps r)" if "(d, r) \<in> set rs" for d r
  proof -
    have "length r = length w" using len that by auto
    with idx(2) show ?thesis by (intro permute_map) simp
  qed
  have fr: "permute_frame ps (frame_of cols rs) = frame_of (permute ps cols) ?rs'"
  proof -
    have "map (\<lambda>(d, r). (d, permute ps r)) (map (\<lambda>(d, r). (d, map Fin r)) rs)
        = map (\<lambda>(d, r). (d, map Fin r)) ?rs'"
      using rowp by (auto simp: case_prod_unfold)
    then show ?thesis by (simp add: permute_frame_def frame_of_def)
  qed
  have rs': "?rs' = (d0, permute ps r0) # map (\<lambda>(d, r). (d, permute ps r)) rest"
    by (simp add: rs)
  have len': "\<forall>(d, r) \<in> set ?rs'. length r = length (permute ps w)"
    by (auto simp: length_permute)
  have cols': "length (permute ps cols) = length (permute ps w)"
    by (simp add: length_permute)
  have nz': "\<forall>x \<in> set (permute ps r0). x \<noteq> 0"
    using nz idx(2) l0 by (auto simp: permute_def)
  have "simulate_portfolio (permute_frame ps (frame_of cols rs)) (permute ps (map Fin w)) (Fin i)
      = Inr (map (\<lambda>(d, r). (d, Fin (spec_growth (permute ps w) (permute ps r0) r * i))) ?rs')"
    unfolding fr w' by (rule simulate_real[OF rs' len' cols' nz'])
  also have "map (\<lambda>(d, r). (d, Fin (spec_growth (permute ps w) (permute ps r0) r * i))) ?rs'
      = map (\<lambda>(d, r). (d, Fin (spec_growth w r0 r * i))) rs"
    by (simp add: case_prod_unfold comp_def spec_growth_permute[OF perm])
  also have "Inr (map (\<lambda>(d, r). (d, Fin (spec_growth w r0 r * i))) rs)
      = simulate_portfolio (frame_of cols rs) (map Fin w) (Fin i)"
    by (rule simulate_real[OF rs len cols nz, symmetric])
  finally show ?thesis .
qed

theorem simulate_positional_witness:
  "simulate_portfolio
     (permute_frame [1, 0] (frame_of [''AAPL'', ''MSFT''] [(0::nat, [100, 100]), (1, [200, 100])]))
     (permute [1, 0] (map Fin [1, 0])) (Fin 10000)
   = Inr [(0, Fin 10000), (1, Fin 20000)]"
  using simulate_positional
    [of "[(0::nat, [100, 100]), (1, [200, 100])]" 0 "[100, 100]" "[(1, [200, 100])]"
        "[1, 0]" "[''AAPL'', ''MSFT'']" "[1, 0]" 10000]
  by (simp add: simulate_portfolio_def frame_of_def nansum_def dropna_def)

text \<open>
  Reordering the (ticker, weight) pairs alone, with the table unchanged, changes the
  series: the weight 1 moves from the AAPL column to the MSFT column.
\<close>

theorem ticker_identity_counterexample:
  "simulate_portfolio
     \<lparr>columns = [''AAPL'', ''MSFT''],
      rows = [(0::nat, [Fin 100, Fin 100]), (1, [Fin 200, Fin 100])]\<rparr>
     (map snd [(''AAPL'', Fin 1), (''MSFT'', Fin 0)]) (Fin 10000)
   \<noteq> simulate_portfolio
     \<lparr>columns = [''AAPL'', ''MSFT''],
      rows = [(0::nat, [Fin 100, Fin 100]), (1, [Fin 200, Fin 100])]\<rparr>
     (map snd [(''MSFT'', Fin 0), (''AAPL'', Fin 1)]) (Fin 10000)"
  by (simp add: simulate_portfolio_def nansum_def dropna_def)

text \<open>
  C9. Multiplying every price of one column by a constant \<open>c > 0\<close> leaves the result
  of \<open>simulate_portfolio\<close> unchanged, for every frame, every list of allocations and
  every initial investment (also when the result is an error).
\<close>

theorem simulate_scale_invariant:
  assumes "0 < c"
  shows "simulate_portfolio (scale_column j c data) allocations initial_investment
       = simulate_portfolio data allocations initial_investment"
proof (cases "rows data")
  case Nil
  then show ?thesis by (simp add: simulate_portfolio_def scale_column_def)
next
  case (Cons row0 rest)
  obtain d0 f where row0: "row0 = (d0, f)" by (cases row0)
  have norm: "map (\<lambda>(d, r). (d, map2 fl_div r (f[j := fl_mul (f ! j) (Fin c)])))
                (map (\<lambda>(d, r). (d, r[j := fl_mul (r ! j) (Fin c)])) (rows data))
            = map (\<lambda>(d, r). (d, map2 fl_div r f)) (rows data)"
  proof -
    have e: "(\<lambda>(d, r). (d, map2 fl_div r (f[j := fl_mul (f ! j) (Fin c)])))
            \<circ> (\<lambda>(d, r). (d, r[j := fl_mul (r ! j) (Fin c)]))
        = (\<lambda>(d, r). (d, map2 fl_div r f))"
      by (rule ext) (simp add: row_div_scale[OF assms] split: prod.split)
    show ?thesis by (simp only: map_map e)
  qed
  have "rows (scale_column j c data)
      = (d0, f[j := fl_mul (f ! j) (Fin c)])
        # map (\<lambda>(d, r). (d, r[j := fl_mul (r ! j) (Fin c)])) rest"
    by (simp add: scale_column_def Cons row0)
  moreover have "rows (scale_column j c data)
      = map (\<lambda>(d, r). (d, r[j := fl_mul (r ! j) (Fin c)])) (rows data)"
    by (simp add: scale_column_def)
  moreover have "columns (scale_column j c data) = columns data"
    by (simp add: scale_column_def)
  ultimately show ?thesis
    unfolding simulate_portfolio_def Let_def
    using norm by (simp add: Cons row0)
qed

theorem simulate_scale_invariant_witness:
  "simulate_portfolio
     (scale_column 0 2
        \<lparr>columns = [''AAPL'', ''MSFT''],
         rows = [(0::nat, [Fin 100, Fin 50]), (1, [Fin 110, Fin 55]), (2, [Fin 99, Fin 45])]\<rparr>)
     [Fin (1/2), Fin (1/2)] (Fin 10000)
   = Inr [(0, Fin 10000), (1, Fin 11000), (2, Fin 9450)]"
  using simulate_scale_invariant
    [of 2 0 "\<lparr>columns = [''AAPL'', ''MSFT''],
         rows = [(0::nat, [Fin 100, Fin 50]), (1, [Fin 110, Fin 55]), (2, [Fin 99, Fin 45])]\<rparr>"
        "[Fin (1/2), Fin (1/2)]" "Fin 10000"]
    simulate_portfolio_example
  by simp

text \<open>
  C10. \<open>simulate_portfolio\<close> is homogeneous in the initial investment: for
  \<open>c > 0\<close>, simulating with \<open>c\<close> times the investment gives \<open>c\<close> times the
  series on every date. In particular the "Buy More" action, which simulates again with
  the investment plus 1000, multiplies the whole series from the first date on by
  \<open>(i + 1000) / i\<close>; it does not add 1000 at the last date (in the example the last
  value goes from 9450 to 10395, not to 10450).
\<close>

theorem simulate_homogeneous:
  "(0 < c \<longrightarrow>
      simulate_portfolio data allocations (fl_mul (Fin c) initial_investment)
      = map_sum id (scale_series c) (simulate_portfolio data allocations initial_investment))
   \<and> (0 < i \<longrightarrow>
      buy_more data allocations (Fin i)
      = map_sum id (scale_series ((i + 1000) / i)) (simulate_portfolio data allocations (Fin i)))"
proof -
  have h: "simulate_portfolio data allocations (fl_mul (Fin k) v)
         = map_sum id (scale_series k) (simulate_portfolio data allocations v)"
    if "0 < k" for k v
  proof (cases "rows data")
    case Nil
    then show ?thesis by (simp add: simulate_portfolio_def)
  next
    case (Cons row0 rest)
    obtain d0 f where row0: "row0 = (d0, f)" by (cases row0)
    show ?thesis
      by (simp add: simulate_portfolio_def Cons row0 scale_series_def fl_mul_homog[OF that]
          case_prod_unfold comp_def)
  qed
  have b: "buy_more data allocations (Fin i)
         = map_sum id (scale_series ((i + 1000) / i)) (simulate_portfolio data allocations (Fin i))"
    if "0 < i"
  proof -
    have "0 < (i + 1000) / i" using that by simp
    from h[OF this, of "Fin i"] that show ?thesis by (simp add: buy_more_def)
  qed
  show ?thesis using h b by blast
qed

theorem simulate_homogeneous_witness:
  "simulate_portfolio
     \<lparr>columns = [''AAPL'', ''MSFT''],
      rows = [(0::nat, [Fin 100, Fin 50]), (1, [Fin 110, Fin 55]), (2, [Fin 99, Fin 45])]\<rparr>
     [Fin (1/2), Fin (1/2)] (Fin 20000)
   = Inr [(0, Fin 20000), (1, Fin 22000), (2, Fin 18900)]
   \<and> buy_more
     \<lparr>columns = [''AAPL'', ''MSFT''],
      rows = [(0::nat, [Fin 100, Fin 50]), (1, [Fin 110, Fin 55]), (2, [Fin 99, Fin 45])]\<rparr>
     [Fin (1/2), Fin (1/2)] (Fin 10000)
   = Inr [(0, Fin 11000), (1, Fin 12100), (2, Fin 10395)]"
  using simulate_homogeneous
    [of 2 "\<lparr>columns = [''AAPL'', ''MSFT''],
      rows = [(0::nat, [Fin 100, Fin 50]), (1, [Fin 110, Fin 55]), (2, [Fin 99, Fin 45])]\<rparr>"
      "[Fin (1/2), Fin (1/2)]" "Fin 10000" 10000]
    simulate_portfolio_example
  by (simp add: scale_series_def)

section \<open>Validation in the script\<close>

text \<open>
  \<open>simulate_portfolio\<close> raises on a frame without rows (\<open>data.iloc[0]\<close>) and on a
  list of allocations whose length is not the number of columns; in every other case it
  returns a series.
\<close>

lemma simulate_portfolio_no_rows:
  "rows data = [] \<Longrightarrow> simulate_portfolio data allocations i = Inl IndexError"
  by (simp add: simulate_portfolio_def)

lemma simulate_portfolio_count_mismatch:
  assumes "rows data \<noteq> []" and "length allocations \<noteq> length (columns data)"
  shows "simulate_portfolio data allocations i = Inl ValueError"
proof -
  obtain d0 f rest where "rows data = (d0, f) # rest"
    using assms(1) by (cases "rows data") auto
  with assms(2) show ?thesis by (simp add: simulate_portfolio_def)
qed

lemma simulate_portfolio_returns:
  assumes "rows data \<noteq> []" and "length allocations = length (columns data)"
  shows "\<exists>out. simulate_portfolio data allocations i = Inr out
           \<and> map fst out = map fst (rows data)"
proof -
  obtain d0 f rest where "rows data = (d0, f) # rest"
    using assms(1) by (cases "rows data") auto
  with assms(2) show ?thesis
    by (simp add: simulate_portfolio_def comp_def case_prod_unfold)
qed

text \<open>A table with a row and no columns is empty, and is simulated with no weights.\<close>

lemma simulate_portfolio_no_columns:
  "frame_empty \<lparr>columns = [], rows = [(0::nat, [])]\<rparr>
   \<and> simulate_portfolio \<lparr>columns = [], rows = [(0::nat, [])]\<rparr> [] (Fin 10000)
       = Inr [(0, Fin 0)]"
  by (simp add: frame_empty_def simulate_portfolio_def nansum_def dropna_def)

text \<open>The checks of the script, in the order in which it makes them.\<close>

lemma run_simulation_stops:
  assumes "ticker_list \<noteq> []"
  shows "length alloc_pct \<noteq> length ticker_list \<Longrightarrow>
           run_simulation ticker_list alloc_pct i data = Inl AllocationsCountMismatch"
    and "length alloc_pct = length ticker_list \<Longrightarrow> \<not> sum_ok (allocations_of alloc_pct) \<Longrightarrow>
           run_simulation ticker_list alloc_pct i data = Inl AllocationsSumNot100"
    and "length alloc_pct = length ticker_list \<Longrightarrow> sum_ok (allocations_of alloc_pct) \<Longrightarrow>
           frame_empty data \<Longrightarrow>
           run_simulation ticker_list alloc_pct i data = Inl FailedToFetch"
  using assms by (simp_all add: run_simulation_def Let_def allocations_of_def)

text \<open>
  C4, as the code has it. \<open>simulate_portfolio\<close> makes no check of its own. It fails
  with \<open>IndexError\<close> when the price table has no rows, and with \<open>ValueError\<close> when
  the table has rows and the number of weights differs from the number of columns; in
  every other case it returns a series over the dates of the table, whatever the sum of
  the weights, also for a table without columns. The rejections are made by the script
  before it calls \<open>simulate_portfolio\<close>, in this order, with at least one ticker
  selected: a number of weights different from the number of tickers stops with
  \<open>AllocationsCountMismatch\<close>; otherwise weights whose sum \<open>s\<close> does not satisfy
  \<open>abs(s - 1) < 1e-3\<close> stop with \<open>AllocationsSumNot100\<close>; otherwise a table with no
  rows or no columns stops with \<open>FailedToFetch\<close>.
\<close>

theorem simulate_portfolio_failures:
  "(rows data = [] \<longrightarrow> simulate_portfolio data allocations i = Inl IndexError)
   \<and> (rows data \<noteq> [] \<and> length allocations \<noteq> length (columns data) \<longrightarrow>
        simulate_portfolio data allocations i = Inl ValueError)
   \<and> (rows data \<noteq> [] \<and> length allocations = length (columns data) \<longrightarrow>
        (\<exists>out. simulate_portfolio data allocations i = Inr out
               \<and> map fst out = map fst (rows data)))
   \<and> (ticker_list \<noteq> [] \<and> length alloc_pct \<noteq> length ticker_list \<longrightarrow>
        run_simulation ticker_list alloc_pct i data = Inl AllocationsCountMismatch)
   \<and> (ticker_list \<noteq> [] \<and> length alloc_pct = length ticker_list
        \<and> \<not> sum_ok (allocations_of alloc_pct) \<longrightarrow>
        run_simulation ticker_list alloc_pct i data = Inl AllocationsSumNot100)
   \<and> (ticker_list \<noteq> [] \<and> length alloc_pct = length ticker_list
        \<and> sum_ok (allocations_of alloc_pct) \<and> frame_empty data \<longrightarrow>
        run_simulation ticker_list alloc_pct i data = Inl FailedToFetch)
   \<and> (sum_ok (map Fin w) \<longleftrightarrow> \<bar>sum_list w - 1\<bar> < 1 / 1000)"
proof (intro conjI impI)
  show "sum_ok (map Fin w) \<longleftrightarrow> \<bar>sum_list w - 1\<bar> < 1 / 1000"
    by (rule sum_ok_Fin)
qed (auto intro: simulate_portfolio_no_rows simulate_portfolio_count_mismatch
      simulate_portfolio_returns run_simulation_stops)

theorem simulate_portfolio_failures_witness:
  "simulate_portfolio \<lparr>columns = [], rows = ([] :: (nat \<times> fl list) list)\<rparr> [Fin 1] (Fin 10000)
   = Inl IndexError
   \<and> simulate_portfolio
       \<lparr>columns = [''AAPL'', ''MSFT''], rows = [(0::nat, [Fin 100, Fin 50])]\<rparr>
       [Fin 1] (Fin 10000)
     = Inl ValueError
   \<and> (\<exists>out. simulate_portfolio
         \<lparr>columns = [''AAPL'', ''MSFT''], rows = [(0::nat, [Fin 100, Fin 50])]\<rparr>
         [Fin (1/2), Fin (2/5)] (Fin 10000) = Inr out
       \<and> map fst out = [0])
   \<and> run_simulation [''AAPL'', ''MSFT''] [Fin 100] (Fin 10000)
       \<lparr>columns = [''AAPL'', ''MSFT''], rows = [(0::nat, [Fin 100, Fin 50])]\<rparr>
     = Inl AllocationsCountMismatch
   \<and> run_simulation [''AAPL'', ''MSFT''] [Fin 50, Fin 40] (Fin 10000)
       \<lparr>columns = [''AAPL'', ''MSFT''], rows = [(0::nat, [Fin 100, Fin 50])]\<rparr>
     = Inl AllocationsSumNot100
   \<and> run_simulation [''AAPL'', ''MSFT''] [Fin 50, Fin 50] (Fin 10000)
       \<lparr>columns = [], rows = ([] :: (nat \<times> fl list) list)\<rparr>
     = Inl FailedToFetch"
  using simulate_portfolio_failures
    [of "\<lparr>columns = [], rows = ([] :: (nat \<times> fl list) list)\<rparr>" "[Fin 1]" "Fin 10000"
        "[''AAPL'', ''MSFT'']" "[Fin 50, Fin 50]" "[]"]
    simulate_portfolio_failures
    [of "\<lparr>columns = [''AAPL'', ''MSFT''], rows = [(0::nat, [Fin 100, Fin 50])]\<rparr>"
        "[Fin 1]" "Fin 10000" "[''AAPL'', ''MSFT'']" "[Fin 100]" "[]"]
    simulate_portfolio_failures
    [of "\<lparr>columns = [''AAPL'', ''MSFT''], rows = [(0::nat, [Fin 100, Fin 50])]\<rparr>"
        "[Fin (1/2), Fin (2/5)]" "Fin 10000" "[''AAPL'', ''MSFT'']" "[Fin 50, Fin 40]" "[]"]
  by (simp add: allocations_of_def sum_ok_def py_sum_def fl_sub_def frame_empty_def)

text \<open>
  Scenario 3 of the specification, weights 0.5 and 0.4 for two tickers: the sum check
  fails, and \<open>simulate_portfolio\<close> called with these weights returns a series.
\<close>

theorem simulate_unchecked_sum_counterexample:
  "\<not> sum_ok [Fin (1/2), Fin (2/5)]
   \<and> simulate_portfolio
       \<lparr>columns = [''AAPL'', ''MSFT''],
        rows = [(0::nat, [Fin 100, Fin 50]), (1, [Fin 110, Fin 55])]\<rparr>
       [Fin (1/2), Fin (2/5)] (Fin 10000)
     = Inr [(0, Fin 9000), (1, Fin 9900)]"
  by (simp add: sum_ok_def py_sum_def fl_sub_def simulate_portfolio_def nansum_def dropna_def)

section \<open>The metrics\<close>

text \<open>
  C2. For a series of at least two finite, non-zero values, \<open>calculate_metrics\<close>
  returns: the total return \<open>last / first - 1\<close>; as volatility the sample standard
  deviation (denominator \<open>N - 1\<close>) of the period returns times \<open>sqrt 252\<close>; as
  Sharpe ratio the mean of the period returns over their standard deviation, times
  \<open>sqrt 252\<close>, with nothing subtracted from the mean. Where the formulas are
  undefined the result is not a number: with exactly two values there is one period
  return, whose sample standard deviation is \<open>NaN\<close>; with a standard deviation of 0
  the Sharpe ratio is an infinity with the sign of the mean, or \<open>NaN\<close> when the mean
  is 0.
\<close>

theorem calculate_metrics_formulas:
  assumes "vs = map snd dvs" and "2 \<le> length vs" and "\<forall>x \<in> set vs. x \<noteq> 0"
    and "r = spec_returns vs"
  shows "\<exists>tr vol sh md. calculate_metrics (series_of dvs) = Inr (tr, vol, sh, md)
           \<and> tr = Fin (last vs / hd vs - 1)
           \<and> (length vs = 2 \<longrightarrow> vol = NaN \<and> sh = NaN)
           \<and> (3 \<le> length vs \<longrightarrow> vol = Fin (spec_std r * sqrt 252))
           \<and> (3 \<le> length vs \<and> spec_std r \<noteq> 0 \<longrightarrow>
                 sh = Fin (spec_mean r / spec_std r * sqrt 252))
           \<and> (3 \<le> length vs \<and> spec_std r = 0 \<longrightarrow> sh = inf_of (spec_mean r))"
proof -
  obtain v rest where c: "vs = v # rest" using assms(2) by (cases vs) auto
  have nz: "\<forall>x \<in> set (v # rest). x \<noteq> 0" using assms(3) c by simp
  have lr: "length r = length vs - 1" by (simp add: assms(4) length_spec_returns)
  have s252: "0 < sqrt 252" by simp
  let ?vol = "fl_mul (fl_std (map Fin r)) (Fin (sqrt 252))"
  let ?sh = "fl_mul (fl_div (fl_mean (map Fin r)) (fl_std (map Fin r))) (Fin (sqrt 252))"
  have cm: "calculate_metrics (series_of dvs) =
     Inr (Fin (last vs / hd vs - 1), ?vol, ?sh,
          fl_min (map (\<lambda>x. fl_sub x (Fin 1))
                   (map2 fl_div (map Fin vs) (cummax (map Fin vs)))))"
    using calculate_metrics_Fin[OF assms(1)[symmetric, unfolded c] nz]
    by (simp only: c assms(4) list.sel)
  have short: "?vol = NaN \<and> ?sh = NaN" if "length vs = 2"
  proof -
    have "fl_std (map Fin r) = NaN" using that lr by (intro fl_std_short) simp
    moreover have "fl_div (fl_mean (map Fin r)) NaN = NaN"
      by (cases "fl_mean (map Fin r)") simp_all
    ultimately show ?thesis by simp
  qed
  have long: "fl_std (map Fin r) = Fin (spec_std r)" "fl_mean (map Fin r) = Fin (spec_mean r)"
    if "3 \<le> length vs"
  proof -
    have "2 \<le> length r" using that lr by simp
    then show "fl_std (map Fin r) = Fin (spec_std r)" by (rule fl_std_Fin)
    have "r \<noteq> []" using \<open>2 \<le> length r\<close> by auto
    then show "fl_mean (map Fin r) = Fin (spec_mean r)" by (rule fl_mean_Fin)
  qed
  have vol: "?vol = Fin (spec_std r * sqrt 252)" if "3 \<le> length vs"
    by (simp only: long(1)[OF that] fl_mul.simps)
  have sh1: "?sh = Fin (spec_mean r / spec_std r * sqrt 252)"
    if "3 \<le> length vs" "spec_std r \<noteq> 0"
    using that(2) by (simp only: long[OF that(1)]) simp
  have sh2: "?sh = inf_of (spec_mean r)" if "3 \<le> length vs" "spec_std r = 0"
    using that(2) fl_mul_inf_of_pos[OF s252] by (simp only: long[OF that(1)]) simp
  show ?thesis
    using cm short vol sh1 sh2 by (intro exI conjI impI) (assumption | simp)+
qed

theorem calculate_metrics_formulas_witness:
  "\<exists>tr vol sh md. calculate_metrics (series_of [(0::nat, 10000), (1, 11000), (2, 9450)])
                      = Inr (tr, vol, sh, md)
       \<and> tr = Fin (- 11 / 200)
       \<and> vol = Fin (sqrt (2809 / 96800) * sqrt 252)
       \<and> sh = Fin (- (9 / 440) / sqrt (2809 / 96800) * sqrt 252)"
  using calculate_metrics_formulas
    [of "[10000, 11000, 9450]" "[(0::nat, 10000), (1, 11000), (2, 9450)]" "[1 / 10, - (31 / 220)]"]
  by (simp add: spec_returns_def example_returns_mean example_returns_std)

text \<open>
  C8. For a non-empty series of positive values, the maximum drawdown that
  \<open>calculate_metrics\<close> returns is the minimum over the dates \<open>t\<close> of
  \<open>value\<^sub>t / max (value\<^sub>1 .. value\<^sub>t) - 1\<close>; it is at most 0, and it is 0 exactly
  when the series is non-decreasing.
\<close>

theorem max_drawdown_bounded:
  assumes "vs = map snd dvs" and "vs \<noteq> []" and "\<forall>x \<in> set vs. 0 < x"
  shows "\<exists>tr vol sh. calculate_metrics (series_of dvs)
                       = Inr (tr, vol, sh, Fin (spec_max_drawdown vs))
           \<and> spec_max_drawdown vs \<le> 0
           \<and> (spec_max_drawdown vs = 0 \<longleftrightarrow> sorted vs)"
proof -
  obtain v rest where c: "vs = v # rest" using assms(2) by (cases vs) auto
  have nz: "\<forall>x \<in> set (v # rest). x \<noteq> 0" using assms(3) c by auto
  have "calculate_metrics (series_of dvs) =
     Inr (Fin (last (v # rest) / v - 1),
          fl_mul (fl_std (map Fin (spec_returns (v # rest)))) (Fin (sqrt 252)),
          fl_mul (fl_div (fl_mean (map Fin (spec_returns (v # rest))))
                         (fl_std (map Fin (spec_returns (v # rest))))) (Fin (sqrt 252)),
          Fin (spec_max_drawdown vs))"
    using calculate_metrics_Fin[OF assms(1)[symmetric, unfolded c] nz]
      max_drawdown_Fin[OF assms(2,3)] by (simp only: c)
  then show ?thesis
    using spec_max_drawdown_le_0[OF assms(2,3)] spec_max_drawdown_eq_0[OF assms(2,3)]
    by (intro exI conjI) assumption+
qed

theorem max_drawdown_bounded_witness:
  "\<exists>tr vol sh. calculate_metrics (series_of [(0::nat, 10000), (1, 11000), (2, 9450)])
                   = Inr (tr, vol, sh, Fin (- 31 / 220))
       \<and> \<not> sorted [10000, 11000, 9450 :: real]"
  using max_drawdown_bounded
    [of "[10000, 11000, 9450]" "[(0::nat, 10000), (1, 11000), (2, 9450)]"]
  by (simp add: spec_max_drawdown_def spec_drawdown_def lessThan_Suc)

text \<open>
  C6, as the code has it. For a constant series of a finite non-zero value with at least
  two entries, \<open>calculate_metrics\<close> returns without raising: the total return is 0,
  the maximum drawdown is 0 and the Sharpe ratio is \<open>NaN\<close>. The volatility is
  \<open>NaN\<close> only when the series has exactly two entries (a single period return has no
  sample standard deviation); with three or more entries the standard deviation of the
  all-zero returns is 0 and the volatility is the number 0.
\<close>

theorem constant_series_metrics:
  assumes "v \<noteq> 0" and "2 \<le> length ds"
  shows "calculate_metrics (map (\<lambda>d. (d, Fin v)) ds)
       = Inr (Fin 0, (if length ds = 2 then NaN else Fin 0), NaN, Fin 0)"
proof -
  let ?n = "length ds"
  let ?dvs = "map (\<lambda>d. (d, v)) ds"
  have so: "series_of ?dvs = map (\<lambda>d. (d, Fin v)) ds"
    by (simp add: series_of_def comp_def)
  have vals: "map snd ?dvs = v # replicate (?n - 1) v"
  proof -
    have "map snd ?dvs = replicate ?n v" by (simp add: comp_def map_replicate_const)
    also have "\<dots> = v # replicate (?n - 1) v" using assms(2) by (cases ?n) simp_all
    finally show ?thesis .
  qed
  have rep: "v # replicate (?n - 1) v = replicate ?n v"
    using assms(2) by (cases ?n) simp_all
  have nz: "\<forall>x \<in> set (v # replicate (?n - 1) v). x \<noteq> 0" using assms(1) by simp
  have r: "spec_returns (replicate ?n v) = replicate (?n - 1) 0"
    by (rule spec_returns_const[OF assms(1)])
  have "?n \<noteq> 0" using assms(2) by auto
  then have "last (replicate ?n v) = v" by (rule last_replicate)
  then have tr: "Fin (last (replicate ?n v) / v - 1) = Fin 0"
    using assms(1) by simp
  have mean: "fl_mean (map Fin (replicate (?n - 1) 0)) = Fin 0"
    using assms(2) fl_mean_Fin[of "replicate (?n - 1) 0"] by (simp add: spec_mean_zeros)
  have std: "fl_std (map Fin (replicate (?n - 1) 0)) = (if ?n = 2 then NaN else Fin 0)"
  proof (cases "?n = 2")
    case True
    then show ?thesis by (simp add: fl_std_short)
  next
    case False
    with assms(2) have "2 \<le> length (replicate (?n - 1) (0::real))" by simp
    then have "fl_std (map Fin (replicate (?n - 1) 0)) = Fin (spec_std (replicate (?n - 1) 0))"
      by (rule fl_std_Fin)
    with False show ?thesis by (simp add: spec_std_zeros)
  qed
  have md: "fl_min (map (\<lambda>x. fl_sub x (Fin 1))
              (map2 fl_div (map Fin (replicate ?n v)) (cummax (map Fin (replicate ?n v))))) = Fin 0"
  proof -
    have "0 < ?n" using assms(2) by linarith
    from max_drawdown_const[OF assms(1) this] show ?thesis by simp
  qed
  have "calculate_metrics (series_of ?dvs)
      = Inr (Fin 0,
             fl_mul (if ?n = 2 then NaN else Fin 0) (Fin (sqrt 252)),
             fl_mul (fl_div (Fin 0) (if ?n = 2 then NaN else Fin 0)) (Fin (sqrt 252)),
             Fin 0)"
    using calculate_metrics_Fin[OF vals nz]
    by (simp only: rep r tr mean std md)
  then show ?thesis
    by (simp add: so inf_of_def)
qed

theorem constant_series_metrics_witness:
  "calculate_metrics [(0::nat, Fin 100), (1, Fin 100), (2, Fin 100)]
     = Inr (Fin 0, Fin 0, NaN, Fin 0)
   \<and> calculate_metrics [(0::nat, Fin 100), (1, Fin 100)] = Inr (Fin 0, NaN, NaN, Fin 0)"
  using constant_series_metrics[of 100 "[0::nat, 1, 2]"]
    constant_series_metrics[of 100 "[0::nat, 1]"]
  by simp

theorem constant_series_volatility_counterexample:
  "calculate_metrics [(0::nat, Fin 100), (1, Fin 100), (2, Fin 100)]
     \<noteq> Inr (Fin 0, NaN, NaN, Fin 0)"
  by (simp add: calculate_metrics_def pct_change_def dropna_def fl_std_def fl_mean_def
      nansum_def fl_sub_def fl_min_def cummax_def fl_max_def fl_min2_def inf_of_def)

text \<open>
  C5, as the code has it. \<open>calculate_metrics\<close> has no check on the length of the
  series. On the empty series it raises \<open>IndexError\<close> (from \<open>portfolio.iloc[-1]\<close>).
  On a series with a single finite non-zero observation it returns a result: the total
  return is 0, the maximum drawdown is 0, and volatility and Sharpe ratio are \<open>NaN\<close>.
\<close>

theorem calculate_metrics_short_series:
  "calculate_metrics ([] :: 'd series) = Inl IndexError
   \<and> (v \<noteq> 0 \<longrightarrow> calculate_metrics [(d :: 'd, Fin v)] = Inr (Fin 0, NaN, NaN, Fin 0))"
  by (simp add: calculate_metrics_def pct_change_def dropna_def fl_std_def fl_mean_def
      nansum_def fl_sub_def fl_min_def cummax_def fl_max_def fl_min2_def)

theorem calculate_metrics_short_series_witness:
  "calculate_metrics ([] :: nat series) = Inl IndexError
   \<and> calculate_metrics [(0::nat, Fin 10000)] = Inr (Fin 0, NaN, NaN, Fin 0)"
  using calculate_metrics_short_series[of 10000 "0::nat"] by simp

theorem single_observation_counterexample:
  "\<not> isl (calculate_metrics [(0::nat, Fin 10000)])"
  by (simp add: calculate_metrics_def pct_change_def dropna_def fl_std_def fl_mean_def
      nansum_def fl_sub_def fl_min_def cummax_def fl_max_def fl_min2_def)

end
